theory Spec2Isabelle
  imports Complex_Main "HOL-Library.Multiset"
begin

section \<open>PyRush: data model (models.py)\<close>

text \<open>
  Python floats (times in seconds) are modelled as \<^typ>\<open>real\<close>: exact arithmetic, no rounding.
  Python's unbounded \<open>int\<close> is \<^typ>\<open>int\<close>; counts and lengths are \<^typ>\<open>nat\<close>.
  A \<open>bytes\<close> value is a \<^typ>\<open>string\<close> (a list of 8-bit characters); a Python \<open>str\<close> is
  represented by its UTF-8 encoding, also a \<^typ>\<open>string\<close>.
  \<open>Optional[T]\<close> is \<^typ>\<open>'a option\<close>, with \<open>None\<close> for Python's \<open>None\<close>.
\<close>

record RequestResult =
  url :: string
  http_method :: string
  status_code :: int
  response_time :: real
  timestamp :: real
  error :: "string option"
  response_size :: nat

text \<open>The exceptions the modelled code can raise and that \<open>except Exception\<close> catches.\<close>

datatype py_exn = StatisticsError | ValueError | IndexError | ZeroDivisionError

definition bind_exn :: "py_exn + 'a \<Rightarrow> ('a \<Rightarrow> py_exn + 'b) \<Rightarrow> py_exn + 'b" where
  \<comment> \<open>sequencing: a raised exception skips the rest of the block\<close>
  "bind_exn r f = (case r of Inl e \<Rightarrow> Inl e | Inr v \<Rightarrow> f v)"

text \<open>
  \<open>TestConfig\<close>: the fields the modelled control flow reads. The remaining fields
  (\<open>url\<close>, \<open>method\<close>, \<open>timeout\<close>, \<open>headers\<close>, \<open>content_type\<close>, \<open>auth\<close>, \<open>proxy\<close>,
  \<open>http2\<close>, \<open>host\<close>, the \<open>disable_*\<close> flags, \<open>cpus\<close>) only shape the outgoing request.
\<close>

record TestConfig =
  num_requests :: nat
  concurrency :: nat
  rate_limit :: "real option"
  duration :: "real option"
  data :: "string option"
  data_file :: "string option"

text \<open>
  \<open>StressTester\<close> (core.py): the object's attributes. \<open>progress_bar\<close> holds the number of
  updates the bar has received, \<open>None\<close> when no bar is set. The lock and the step-load
  settings are left out: every function below runs one worker step at a time.
\<close>

record StressTester =
  config :: TestConfig
  urls :: "string list"
  results :: "RequestResult list"
  start_time :: "real option"
  end_time :: "real option"
  dns_times :: "real list"
  connect_times :: "real list"
  response_sizes :: "nat list"
  progress_bar :: "nat option"
  assert_status :: "int option"
  assert_body_contains :: "string option"
  assert_max_rt :: "real option"
  form :: "string list"
  form_file :: "string list"

section \<open>Python built-ins and the \<open>statistics\<close> module\<close>

text \<open>
  The functions of this section are not code of the repository: they are the Python
  built-ins and the functions of CPython's \<open>statistics\<close> module that
  \<open>generate_statistics\<close> calls, written out as CPython (3.8 to 3.12) computes them.
\<close>

definition truthy :: "real option \<Rightarrow> bool" where
  \<comment> \<open>the truth value of an optional float: \<open>None\<close> and \<open>0.0\<close> are false\<close>
  "truthy v = (case v of None \<Rightarrow> False | Some x \<Rightarrow> x \<noteq> 0)"

definition py_div :: "real \<Rightarrow> real \<Rightarrow> py_exn + real" where
  "py_div a b = (if b = 0 then Inl ZeroDivisionError else Inr (a / b))"

definition py_min :: "'a::linorder list \<Rightarrow> py_exn + 'a" where
  "py_min xs = (case xs of [] \<Rightarrow> Inl ValueError | x # rest \<Rightarrow> Inr (fold min rest x))"

definition py_max :: "'a::linorder list \<Rightarrow> py_exn + 'a" where
  "py_max xs = (case xs of [] \<Rightarrow> Inl ValueError | x # rest \<Rightarrow> Inr (fold max rest x))"

definition py_index :: "'a list \<Rightarrow> nat \<Rightarrow> py_exn + 'a" where
  \<comment> \<open>\<open>xs[i]\<close> for a non-negative literal index\<close>
  "py_index xs i = (if i < length xs then Inr (xs ! i) else Inl IndexError)"

definition py_last :: "'a list \<Rightarrow> py_exn + 'a" where
  \<comment> \<open>\<open>xs[-1]\<close>\<close>
  "py_last xs = (if xs = [] then Inl IndexError else Inr (last xs))"

definition mean :: "real list \<Rightarrow> py_exn + real" where
  "mean xs = (if xs = [] then Inl StatisticsError else Inr (sum_list xs / real (length xs)))"

definition median :: "real list \<Rightarrow> py_exn + real" where
  "median xs =
     (let d = sort xs; n = length d in
      if n = 0 then Inl StatisticsError
      else if n mod 2 = 1 then Inr (d ! (n div 2))
      else Inr ((d ! (n div 2 - 1) + d ! (n div 2)) / 2))"

definition sum_sq_dev :: "real list \<Rightarrow> real" where
  \<comment> \<open>\<open>statistics._ss\<close>: the sum of squared deviations about the mean \<open>c\<close>, less the
      correction term \<open>(\<Sum>(x - c))\<^sup>2 / n\<close>\<close>
  "sum_sq_dev xs =
     (let c = sum_list xs / real (length xs);
          total = sum_list (map (\<lambda>x. (x - c) ^ 2) xs);
          total2 = sum_list (map (\<lambda>x. x - c) xs)
      in total - total2 ^ 2 / real (length xs))"

definition variance :: "real list \<Rightarrow> py_exn + real" where
  "variance xs =
     (if length xs < 2 then Inl StatisticsError
      else Inr (sum_sq_dev xs / real (length xs - 1)))"

definition stdev :: "real list \<Rightarrow> py_exn + real" where
  "stdev xs = (case variance xs of Inl e \<Rightarrow> Inl e | Inr v \<Rightarrow> Inr (sqrt v))"

definition quantile_point :: "real list \<Rightarrow> nat \<Rightarrow> nat \<Rightarrow> real" where
  \<comment> \<open>the body of the loop of \<open>statistics.quantiles\<close> for the default
      \<open>method='exclusive'\<close>: \<open>d\<close> is the sorted data, \<open>i\<close> the cut point\<close>
  "quantile_point d n i =
     (let ld = length d;
          m = ld + 1;
          j0 = i * m div n;
          j = (if j0 < 1 then 1 else if j0 > ld - 1 then ld - 1 else j0);
          delta = int (i * m) - int (j * n)
      in (d ! (j - 1) * real_of_int (int n - delta) + d ! j * real_of_int delta) / real n)"

definition quantiles :: "real list \<Rightarrow> nat \<Rightarrow> py_exn + real list" where
  "quantiles xs n =
     (if n < 1 then Inl StatisticsError
      else let d = sort xs in
        if length d < 2 then Inl StatisticsError
        else Inr (map (quantile_point d n) [1..<n]))"

definition quantile_at :: "real list \<Rightarrow> nat \<Rightarrow> nat \<Rightarrow> py_exn + real" where
  \<comment> \<open>\<open>statistics.quantiles(xs, n=n)[k]\<close>\<close>
  "quantile_at xs n k = (case quantiles xs n of Inl e \<Rightarrow> Inl e | Inr qs \<Rightarrow> py_index qs k)"

section \<open>The statistics engine (core.py, \<open>StressTester.generate_statistics\<close>)\<close>

text \<open>
  The returned dictionary is a record; a group of keys that one \<open>if\<close> sets together is an
  optional record. A dictionary of counters is an association list in insertion order.
\<close>

record rt_stats =
  min_response_time :: real
  max_response_time :: real
  mean_response_time :: real
  median_response_time :: real
  std_response_time :: real
  p25_response_time :: real
  p50_response_time :: real
  p75_response_time :: real
  p90_response_time :: real
  p95_response_time :: real
  p99_response_time :: real

record size_stats =
  min_response_size :: nat
  max_response_size :: nat
  mean_response_size :: real
  median_response_size :: real

record statistics =
  total_requests :: nat
  successful_requests :: nat
  failed_requests :: nat
  success_rate :: real
  total_duration :: real
  requests_per_second :: real
  throughput_bytes_per_sec :: real
  response_time_stats :: "rt_stats option"
  status_code_distribution :: "(int \<times> nat) list"
  error_distribution :: "(string \<times> nat) list"
  response_size_stats :: "size_stats option"
  dns_time_stats :: "(real \<times> real) option"
  connect_time_stats :: "(real \<times> real) option"

primrec dict_get :: "('k \<times> 'v) list \<Rightarrow> 'k \<Rightarrow> 'v \<Rightarrow> 'v" where
  \<comment> \<open>\<open>d.get(k, default)\<close>\<close>
  "dict_get [] k dflt = dflt"
| "dict_get (p # ps) k dflt = (if fst p = k then snd p else dict_get ps k dflt)"

primrec dict_set :: "('k \<times> 'v) list \<Rightarrow> 'k \<Rightarrow> 'v \<Rightarrow> ('k \<times> 'v) list" where
  \<comment> \<open>\<open>d[k] = v\<close>: an existing key keeps its place, a new key goes last\<close>
  "dict_set [] k v = [(k, v)]"
| "dict_set (p # ps) k v = (if fst p = k then (k, v) # ps else p # dict_set ps k v)"

definition count_keys :: "'k list \<Rightarrow> ('k \<times> nat) list" where
  \<comment> \<open>\<open>d = {}; for k in ks: d[k] = d.get(k, 0) + 1\<close>\<close>
  "count_keys ks = fold (\<lambda>k d. dict_set d k (dict_get d k 0 + 1)) ks []"

definition response_time_statistics :: "real list \<Rightarrow> py_exn + rt_stats" where
  \<comment> \<open>the block under \<open>if response_times:\<close>, its entries evaluated in order\<close>
  "response_time_statistics rts =
     bind_exn (py_min rts) (\<lambda>mn.
     bind_exn (py_max rts) (\<lambda>mx.
     bind_exn (mean rts) (\<lambda>mu.
     bind_exn (median rts) (\<lambda>med.
     bind_exn (if length rts > 1 then stdev rts else Inr 0) (\<lambda>sd.
     bind_exn (if length rts > 3 then quantile_at rts 4 0 else py_index rts 0) (\<lambda>p25.
     bind_exn (if length rts > 1 then quantile_at rts 2 0 else py_index rts 0) (\<lambda>p50.
     bind_exn (if length rts > 3 then quantile_at rts 4 2 else py_last rts) (\<lambda>p75.
     bind_exn (if length rts > 9 then quantile_at rts 10 8 else py_max rts) (\<lambda>p90.
     bind_exn (if length rts > 19 then quantile_at rts 20 18 else py_max rts) (\<lambda>p95.
     bind_exn (if length rts > 99 then quantile_at rts 100 98 else py_max rts) (\<lambda>p99.
     Inr \<lparr>min_response_time = mn, max_response_time = mx, mean_response_time = mu,
          median_response_time = med, std_response_time = sd,
          p25_response_time = p25, p50_response_time = p50, p75_response_time = p75,
          p90_response_time = p90, p95_response_time = p95,
          p99_response_time = p99\<rparr>)))))))))))"

definition response_size_statistics :: "nat list \<Rightarrow> py_exn + size_stats" where
  \<comment> \<open>the block under \<open>if response_sizes:\<close>\<close>
  "response_size_statistics sizes =
     bind_exn (py_min sizes) (\<lambda>mn.
     bind_exn (py_max sizes) (\<lambda>mx.
     bind_exn (mean (map real sizes)) (\<lambda>mu.
     bind_exn (median (map real sizes)) (\<lambda>med.
     Inr \<lparr>min_response_size = mn, max_response_size = mx, mean_response_size = mu,
          median_response_size = med\<rparr>))))"

definition mean_and_max :: "real list \<Rightarrow> py_exn + real \<times> real" where
  \<comment> \<open>the two keys set under \<open>if self.dns_times:\<close> and under \<open>if self.connect_times:\<close>\<close>
  "mean_and_max xs = bind_exn (mean xs) (\<lambda>mu. bind_exn (py_max xs) (\<lambda>mx. Inr (mu, mx)))"

definition optionally :: "bool \<Rightarrow> (py_exn + 'a) \<Rightarrow> py_exn + 'a option" where
  \<comment> \<open>a block under an \<open>if\<close>: skipped, its keys stay absent\<close>
  "optionally c r = (if c then (case r of Inl e \<Rightarrow> Inl e | Inr v \<Rightarrow> Inr (Some v)) else Inr None)"

definition run_seconds :: "StressTester \<Rightarrow> real" where
  \<comment> \<open>\<open>self.end_time - self.start_time\<close>, read only where both are set\<close>
  "run_seconds t =
     (case (end_time t, start_time t) of (Some e, Some s) \<Rightarrow> e - s | _ \<Rightarrow> 0)"

definition successful :: "StressTester \<Rightarrow> RequestResult list" where
  "successful t = filter (\<lambda>r. error r = None) (results t)"

definition failed :: "StressTester \<Rightarrow> RequestResult list" where
  "failed t = filter (\<lambda>r. error r \<noteq> None) (results t)"

definition response_times :: "StressTester \<Rightarrow> real list" where
  "response_times t = map response_time (successful t)"

definition generate_statistics :: "StressTester \<Rightarrow> py_exn + statistics option" where
  \<comment> \<open>\<open>None\<close> is the empty dictionary returned when there are no results\<close>
  "generate_statistics t =
     (if results t = [] then Inr None
      else
        let sizes = response_sizes t;
            timed = (truthy (end_time t) \<and> truthy (start_time t))
        in
        bind_exn (py_div (real (length (successful t))) (real (length (results t)))) (\<lambda>ratio.
        bind_exn (if timed then py_div (real (length (results t))) (run_seconds t) else Inr 0) (\<lambda>rps.
        bind_exn (if sizes \<noteq> [] \<and> timed then py_div (real (sum_list sizes)) (run_seconds t)
                  else Inr 0) (\<lambda>tput.
        bind_exn (optionally (response_times t \<noteq> []) (response_time_statistics (response_times t))) (\<lambda>rt.
        bind_exn (optionally (sizes \<noteq> []) (response_size_statistics sizes)) (\<lambda>sz.
        bind_exn (optionally (dns_times t \<noteq> []) (mean_and_max (dns_times t))) (\<lambda>dns.
        bind_exn (optionally (connect_times t \<noteq> []) (mean_and_max (connect_times t))) (\<lambda>conn.
        Inr (Some
          \<lparr>total_requests = length (results t),
           successful_requests = length (successful t),
           failed_requests = length (failed t),
           success_rate = ratio * 100,
           total_duration = (if timed then run_seconds t else 0),
           requests_per_second = rps,
           throughput_bytes_per_sec = tput,
           response_time_stats = rt,
           status_code_distribution = count_keys (map status_code (successful t)),
           error_distribution = count_keys (map (\<lambda>r. the (error r)) (failed t)),
           response_size_stats = sz,
           dns_time_stats = dns,
           connect_time_stats = conn\<rparr>)))))))))"

section \<open>The request (requestor.py, \<open>make_request\<close>)\<close>

text \<open>
  What the world outside the function does during one call is given by a record:
  the clock, the files, the HTTP exchange, and the Python built-ins that have no counterpart
  over the reals or over byte strings (float formatting, lenient UTF-8 decoding).
  The keyword arguments built for \<open>session.request\<close> (headers, body, auth, proxy, host)
  shape the exchange only; its result is \<open>http_exchange\<close>.
\<close>

text \<open>
  The result of the exchange as \<open>make_request\<close> sees it: a response with its status and
  body bytes; an exception that \<open>except Exception\<close> catches, with its text \<open>str(e)\<close>
  (DNS failure, refused connection, TLS error, timeout, read error, ...); or an exception
  outside \<open>Exception\<close>, which no handler of the module catches (\<open>asyncio.CancelledError\<close>
  when \<open>run_test\<close> cancels the workers at the end of the duration, \<open>KeyboardInterrupt\<close>).
\<close>

datatype http_outcome =
    Response int string
  | Raised string
  | RaisedBase

text \<open>
  \<open>clock_start\<close> is \<open>time.time()\<close> on entry and \<open>elapsed\<close> the difference read after the
  body or in the handler. \<open>open_form_file\<close> and \<open>read_data_file\<close> give the text of the
  exception when opening or reading the file at a path raises, \<open>None\<close> when it succeeds.
  \<open>decode_ignore\<close> is \<open>bytes.decode(errors='ignore')\<close>, \<open>None\<close> when it raises;
  \<open>fmt_float\<close> and \<open>fmt_float3\<close> render a float as \<open>{x}\<close> and as \<open>{x:.3f}\<close> do.
\<close>

record request_env =
  clock_start :: real
  elapsed :: real
  open_form_file :: "string \<Rightarrow> string option"
  read_data_file :: "string \<Rightarrow> string option"
  http_exchange :: http_outcome
  decode_ignore :: "string \<Rightarrow> string option"
  fmt_float :: "real \<Rightarrow> string"
  fmt_float3 :: "real \<Rightarrow> string"

text \<open>\<open>str\<close> of an integer, the substring test \<open>in\<close>, and the error messages.\<close>

function str_nat :: "nat \<Rightarrow> string" where
  "str_nat n =
     (if n < 10 then [''0123456789'' ! n]
      else str_nat (n div 10) @ [''0123456789'' ! (n mod 10)])"
  by pat_completeness auto
termination
  by (relation "measure id") auto

definition str_int :: "int \<Rightarrow> string" where
  "str_int i = (if i < 0 then CHR ''-'' # str_nat (nat (- i)) else str_nat (nat i))"

fun starts_with :: "'a list \<Rightarrow> 'a list \<Rightarrow> bool" where
  "starts_with xs [] = True"
| "starts_with [] (y # ys) = False"
| "starts_with (x # xs) (y # ys) = (x = y \<and> starts_with xs ys)"

fun str_contains :: "'a list \<Rightarrow> 'a list \<Rightarrow> bool" where
  "str_contains [] needle = (needle = [])"
| "str_contains (x # xs) needle = (starts_with (x # xs) needle \<or> str_contains xs needle)"

definition assert_status_message :: "int \<Rightarrow> int \<Rightarrow> string" where
  "assert_status_message expected got =
     ''Assert status '' @ str_int expected @ '' failed (got '' @ str_int got @ '')''"

definition assert_body_message :: "string \<Rightarrow> string" where
  "assert_body_message s = ''Assert body contains '' @ [CHR 0x27] @ s @ [CHR 0x27] @ '' failed''"

definition assert_body_decode_message :: "string \<Rightarrow> string" where
  "assert_body_decode_message s =
     ''Assert body contains '' @ [CHR 0x27] @ s @ [CHR 0x27] @ '' failed (decode error)''"

definition assert_max_rt_message :: "request_env \<Rightarrow> real \<Rightarrow> real \<Rightarrow> string" where
  "assert_max_rt_message env limit rt =
     ''Assert max response time '' @ fmt_float env limit @ ''s failed (got '' @
       fmt_float3 env rt @ ''s)''"

text \<open>
  The three assertion checks run in sequence, each overwriting the variable \<open>error\<close>
  when it fails; here each takes the value so far and returns the value after it.
\<close>

definition check_status :: "StressTester \<Rightarrow> int \<Rightarrow> string option" where
  "check_status t status =
     (case assert_status t of
        None \<Rightarrow> None
      | Some expected \<Rightarrow>
          if status \<noteq> expected then Some (assert_status_message expected status) else None)"

definition check_body :: "request_env \<Rightarrow> StressTester \<Rightarrow> string \<Rightarrow> string option \<Rightarrow> string option" where
  "check_body env t body err =
     (case assert_body_contains t of
        None \<Rightarrow> err
      | Some s \<Rightarrow>
          if s = [] then err
          else (case decode_ignore env body of
                  None \<Rightarrow> Some (assert_body_decode_message s)
                | Some body_str \<Rightarrow>
                    if \<not> str_contains body_str s then Some (assert_body_message s) else err))"

definition check_max_rt :: "request_env \<Rightarrow> StressTester \<Rightarrow> real \<Rightarrow> string option \<Rightarrow> string option" where
  "check_max_rt env t rt err =
     (case assert_max_rt t of
        None \<Rightarrow> err
      | Some limit \<Rightarrow> if rt > limit then Some (assert_max_rt_message env limit rt) else err)"

definition check_assertions :: "request_env \<Rightarrow> StressTester \<Rightarrow> int \<Rightarrow> string \<Rightarrow> real \<Rightarrow> string option" where
  "check_assertions env t status body rt =
     check_max_rt env t rt (check_body env t body (check_status t status))"

text \<open>
  The form files are opened in order; the first that cannot be opened ends the request.
  The body comes from \<open>config.data\<close>, or else is read from \<open>config.data_file\<close>, where an
  exception is caught by the outer handler as one of the exchange is.
\<close>

definition form_path :: "string \<Rightarrow> string" where
  "form_path f = tl (dropWhile (\<lambda>c. c \<noteq> CHR ''='') f)"

fun form_file_failure :: "(string \<Rightarrow> string option) \<Rightarrow> string list \<Rightarrow> string option" where
  "form_file_failure opn [] = None"
| "form_file_failure opn (f # fs) =
     (if CHR ''='' \<in> set f
      then (case opn (form_path f) of
              Some msg \<Rightarrow> Some msg
            | None \<Rightarrow> form_file_failure opn fs)
      else form_file_failure opn fs)"

definition use_form :: "StressTester \<Rightarrow> bool" where
  "use_form t = (form t \<noteq> [] \<or> form_file t \<noteq> [])"

definition nonempty_str :: "string option \<Rightarrow> bool" where
  "nonempty_str v = (case v of None \<Rightarrow> False | Some s \<Rightarrow> s \<noteq> [])"

definition request_outcome :: "request_env \<Rightarrow> StressTester \<Rightarrow> http_outcome" where
  "request_outcome env t =
     (if \<not> use_form t \<and> \<not> nonempty_str (data (config t)) \<and> nonempty_str (data_file (config t))
      then (case read_data_file env (the (data_file (config t))) of
              Some msg \<Rightarrow> Raised msg
            | None \<Rightarrow> http_exchange env)
      else http_exchange env)"

definition make_request ::
  "request_env \<Rightarrow> StressTester \<Rightarrow> string \<Rightarrow> string \<Rightarrow> unit + RequestResult \<times> StressTester" where
  "make_request env t u m =
     (case (if use_form t then form_file_failure (open_form_file env) (form_file t) else None) of
        Some msg \<Rightarrow>
          Inr (\<lparr>url = u, http_method = m, status_code = 0, response_time = 0,
                timestamp = clock_start env, error = Some (''File error: '' @ msg),
                response_size = 0\<rparr>, t)
      | None \<Rightarrow>
          (case request_outcome env t of
             Response status response_data \<Rightarrow>
               Inr (\<lparr>url = u, http_method = m, status_code = status,
                     response_time = elapsed env, timestamp = clock_start env,
                     error = check_assertions env t status response_data (elapsed env),
                     response_size = length response_data\<rparr>,
                    t\<lparr>response_sizes := response_sizes t @ [length response_data]\<rparr>)
           | Raised msg \<Rightarrow>
               Inr (\<lparr>url = u, http_method = m, status_code = 0, response_time = elapsed env,
                     timestamp = clock_start env, error = Some msg, response_size = 0\<rparr>, t)
           | RaisedBase \<Rightarrow> Inl ()))"

section \<open>The worker (requestor.py, \<open>worker\<close>) and the queue (core.py, \<open>run_test\<close>)\<close>

text \<open>
  The state a worker acts on: the tester, the \<open>asyncio.Queue\<close> (its items, \<open>None\<close> a stop
  signal, and its counter of unfinished tasks), and the exceptions printed as worker
  errors. All items are put before the first worker starts, so a \<open>get\<close> on an empty queue
  ends in the time-out of \<open>wait_for\<close> (1.0 s). \<open>env\<close> gives the outside world of the
  request made for each ID. \<open>asyncio.sleep\<close> for the rate limit changes no state.
  An exception outside \<open>Exception\<close> is modelled where the request is awaited; the other
  awaits of the loop (the queue, the rate-limit sleep) are taken to complete.
  One iteration of the loop returns the state after its \<open>finally\<close> clause and how the
  loop goes on: \<open>Continue\<close>, \<open>Break\<close>, or \<open>Propagate\<close> when an exception leaves the worker.
\<close>

record run_state =
  tester :: StressTester
  queue :: "nat option list"
  unfinished_tasks :: nat
  stdout :: "py_exn list"

datatype control = Continue | Break | Propagate

definition request_ids :: "TestConfig \<Rightarrow> nat list" where
  \<comment> \<open>\<open>run_test\<close>: \<open>range(num_requests)\<close>, with \<open>num_requests = 1000000\<close> under a duration\<close>
  "request_ids cfg = [0..<(if truthy (duration cfg) then 1000000 else num_requests cfg)]"


definition task_done :: "run_state \<Rightarrow> py_exn + run_state" where
  \<comment> \<open>\<open>asyncio.Queue.task_done\<close>, as CPython defines it\<close>
  "task_done s =
     (if unfinished_tasks s \<le> 0 then Inl ValueError
      else Inr (s\<lparr>unfinished_tasks := unfinished_tasks s - 1\<rparr>))"

definition finally_task_done :: "run_state \<Rightarrow> run_state" where
  \<comment> \<open>the \<open>finally\<close> clause: \<open>try: request_queue.task_done() except Exception: pass\<close>\<close>
  "finally_task_done s = (case task_done s of Inl e \<Rightarrow> s | Inr s' \<Rightarrow> s')"

definition select_url :: "string list \<Rightarrow> nat \<Rightarrow> py_exn + string" where
  \<comment> \<open>\<open>urls[request_id % url_count]\<close>\<close>
  "select_url us request_id =
     (let url_count = length us
      in if url_count = 0 then Inl ZeroDivisionError else Inr (us ! (request_id mod url_count)))"

definition update_progress :: "StressTester \<Rightarrow> StressTester" where
  "update_progress t =
     (case progress_bar t of None \<Rightarrow> t | Some n \<Rightarrow> t\<lparr>progress_bar := Some (n + 1)\<rparr>)"

definition worker_iteration ::
  "(nat \<Rightarrow> request_env) \<Rightarrow> string list \<Rightarrow> string \<Rightarrow> run_state \<Rightarrow> run_state \<times> control" where
  "worker_iteration env us m s =
     (case queue s of
        [] \<Rightarrow> (finally_task_done s, Break)
      | None # rest \<Rightarrow> (finally_task_done (s\<lparr>queue := rest\<rparr>), Break)
      | Some request_id # rest \<Rightarrow>
          (let s1 = s\<lparr>queue := rest\<rparr> in
           case select_url us request_id of
             Inl e \<Rightarrow> (finally_task_done (s1\<lparr>stdout := stdout s1 @ [e]\<rparr>), Break)
           | Inr u \<Rightarrow>
               (case make_request (env request_id) (tester s1) u m of
                  Inl _ \<Rightarrow> (finally_task_done s1, Propagate)
                | Inr (result, t') \<Rightarrow>
                    (finally_task_done
                       (s1\<lparr>tester := update_progress (t'\<lparr>results := results t' @ [result]\<rparr>)\<rparr>),
                     Continue))))"

lemma worker_iteration_shrinks:
  "worker_iteration env us m s = (s', Continue) \<Longrightarrow> length (queue s') < length (queue s)"
  by (auto simp: worker_iteration_def finally_task_done_def task_done_def Let_def
      split: list.splits option.splits sum.splits if_splits prod.splits)

function worker ::
  "(nat \<Rightarrow> request_env) \<Rightarrow> string list \<Rightarrow> string \<Rightarrow> run_state \<Rightarrow> run_state \<times> control" where
  "worker env us m s =
     (case worker_iteration env us m s of
        (s', Continue) \<Rightarrow> worker env us m s'
      | (s', c) \<Rightarrow> (s', c))"
  by pat_completeness auto
termination
  by (relation "measure (\<lambda>(env, us, m, s). length (queue s))")
     (auto dest: worker_iteration_shrinks [OF sym])

declare worker.simps [simp del]





section \<open>Observations and sample inputs\<close>

text \<open>
  \<open>stat key t\<close> is the value the dictionary returned by \<open>generate_statistics\<close> holds under
  a key, and \<open>rt_stat key t\<close> the same for a response-time key; both are \<open>None\<close> when the
  key is absent, the dictionary is empty or the call raised.
\<close>

definition stat :: "(statistics \<Rightarrow> 'a) \<Rightarrow> StressTester \<Rightarrow> 'a option" where
  "stat key t = (case generate_statistics t of Inr (Some st) \<Rightarrow> Some (key st) | _ \<Rightarrow> None)"

definition rt_stat :: "(rt_stats \<Rightarrow> 'a) \<Rightarrow> StressTester \<Rightarrow> 'a option" where
  "rt_stat key t =
     (case generate_statistics t of
        Inr (Some st) \<Rightarrow> map_option key (response_time_stats st)
      | _ \<Rightarrow> None)"

text \<open>Sample inputs: a result, and a tester holding a list of results after a two-second run.\<close>

definition sample_result :: "real \<Rightarrow> int \<Rightarrow> string option \<Rightarrow> nat \<Rightarrow> RequestResult" where
  "sample_result rt code err sz =
     \<lparr>url = ''http://a/'', http_method = ''GET'', status_code = code, response_time = rt,
      timestamp = 100, error = err, response_size = sz\<rparr>"

definition sample_tester :: "RequestResult list \<Rightarrow> StressTester" where
  "sample_tester rs =
     \<lparr>config = \<lparr>num_requests = length rs, concurrency = 1, rate_limit = None,
                duration = None, data = None, data_file = None\<rparr>,
      urls = [''http://a/''], results = rs, start_time = Some 100, end_time = Some 102,
      dns_times = [], connect_times = [], response_sizes = map response_size rs,
      progress_bar = None, assert_status = None, assert_body_contains = None,
      assert_max_rt = None, form = [], form_file = []\<rparr>"

text \<open>
  A sample outside world (no file fails, decoding is the identity, as it is on ASCII
  bodies, and the two floats the samples format are rendered as Python does: 1.0 and
  2.000), a tester with assertions set, and a worker state.
\<close>

definition sample_env :: "http_outcome \<Rightarrow> real \<Rightarrow> request_env" where
  "sample_env out rt =
     \<lparr>clock_start = 100, elapsed = rt, open_form_file = (\<lambda>p. None),
      read_data_file = (\<lambda>p. None), http_exchange = out, decode_ignore = Some,
      fmt_float = (\<lambda>x. ''1.0''), fmt_float3 = (\<lambda>x. ''2.000'')\<rparr>"

definition asserting_tester :: "int option \<Rightarrow> string option \<Rightarrow> real option \<Rightarrow> StressTester" where
  "asserting_tester st body rt =
     (sample_tester [])\<lparr>assert_status := st, assert_body_contains := body, assert_max_rt := rt\<rparr>"

definition sample_state :: "nat option list \<Rightarrow> nat \<Rightarrow> run_state" where
  "sample_state q n =
     \<lparr>tester = sample_tester [], queue = q, unfinished_tasks = n, stdout = []\<rparr>"


section \<open>Reference definitions\<close>

text \<open>
  The standard deviation of a sample about its mean, with the population's denominator
  \<open>n\<close> and with the sample's denominator \<open>n - 1\<close>.
\<close>

definition population_stdev :: "real list \<Rightarrow> real" where
  "population_stdev xs =
     (let mu = sum_list xs / real (length xs)
      in sqrt (sum_list (map (\<lambda>x. (x - mu) ^ 2) xs) / real (length xs)))"

definition sample_stdev :: "real list \<Rightarrow> real" where
  "sample_stdev xs =
     (let mu = sum_list xs / real (length xs)
      in sqrt (sum_list (map (\<lambda>x. (x - mu) ^ 2) xs) / real (length xs - 1)))"

text \<open>
  Percentiles by linear interpolation on the sorted sample: \<open>interpolate d h\<close> is the value
  at the fractional zero-based position \<open>h\<close> of the sorted list \<open>d\<close>. The inclusive method
  places the \<open>i/n\<close> quantile of \<open>N\<close> points at position \<open>(N - 1) i / n\<close>, the exclusive
  method at position \<open>(N + 1) i / n - 1\<close>.
\<close>

definition interpolate :: "real list \<Rightarrow> real \<Rightarrow> real" where
  "interpolate d h = (let k = nat \<lfloor>h\<rfloor> in d ! k + frac h * (d ! (k + 1) - d ! k))"

definition exclusive_percentile :: "real list \<Rightarrow> nat \<Rightarrow> nat \<Rightarrow> real" where
  "exclusive_percentile xs i n = interpolate (sort xs) (real (i * (length xs + 1)) / real n - 1)"

definition inclusive_percentile :: "real list \<Rightarrow> nat \<Rightarrow> nat \<Rightarrow> real" where
  "inclusive_percentile xs i n = interpolate (sort xs) (real (i * (length xs - 1)) / real n)"



text \<open>
  The error kinds of the specification, read off the message, and the conditions under
  which each assertion fails on a response.
\<close>

datatype error_kind = AssertStatus | AssertBody | AssertMaxRT | OtherError

definition error_kind_of :: "string \<Rightarrow> error_kind" where
  "error_kind_of msg =
     (if starts_with msg ''Assert status '' then AssertStatus
      else if starts_with msg ''Assert body contains '' then AssertBody
      else if starts_with msg ''Assert max response time '' then AssertMaxRT
      else OtherError)"

definition status_assertion_fails :: "StressTester \<Rightarrow> int \<Rightarrow> bool" where
  "status_assertion_fails t status =
     (case assert_status t of None \<Rightarrow> False | Some expected \<Rightarrow> status \<noteq> expected)"

definition body_assertion_fails :: "request_env \<Rightarrow> StressTester \<Rightarrow> string \<Rightarrow> bool" where
  "body_assertion_fails env t body =
     (case assert_body_contains t of
        None \<Rightarrow> False
      | Some s \<Rightarrow>
          s \<noteq> [] \<and>
          (case decode_ignore env body of None \<Rightarrow> True | Some b \<Rightarrow> \<not> str_contains b s))"

definition max_rt_assertion_fails :: "request_env \<Rightarrow> StressTester \<Rightarrow> bool" where
  "max_rt_assertion_fails env t =
     (case assert_max_rt t of None \<Rightarrow> False | Some limit \<Rightarrow> elapsed env > limit)"

section \<open>Properties of the statistics engine\<close>

lemma py_min_eq: "xs \<noteq> [] \<Longrightarrow> py_min xs = Inr (Min (set xs))"
  by (cases xs) (simp_all add: py_min_def Min.set_eq_fold [symmetric])

lemma py_max_eq: "xs \<noteq> [] \<Longrightarrow> py_max xs = Inr (Max (set xs))"
  by (cases xs) (simp_all add: py_max_def Max.set_eq_fold [symmetric])

lemma py_index_0: "xs \<noteq> [] \<Longrightarrow> py_index xs 0 = Inr (hd xs)"
  by (cases xs) (simp_all add: py_index_def)

lemma py_last_eq: "xs \<noteq> [] \<Longrightarrow> py_last xs = Inr (last xs)"
  by (simp add: py_last_def)

lemma mean_eq: "xs \<noteq> [] \<Longrightarrow> mean xs = Inr (sum_list xs / real (length xs))"
  by (simp add: mean_def)

lemma sort_Nil_iff: "sort xs = [] \<longleftrightarrow> xs = []"
  by (metis length_sort length_0_conv)

lemma median_eq:
  "xs \<noteq> [] \<Longrightarrow> median xs =
     Inr (if length xs mod 2 = 1 then sort xs ! (length xs div 2)
          else (sort xs ! (length xs div 2 - 1) + sort xs ! (length xs div 2)) / 2)"
  by (simp add: median_def Let_def sort_Nil_iff)

lemma stdev_eq: "length xs > 1 \<Longrightarrow> stdev xs = Inr (sqrt (sum_sq_dev xs / real (length xs - 1)))"
  by (simp add: stdev_def variance_def)

lemma quantile_at_eq:
  "length xs > 1 \<Longrightarrow> Suc k < n \<Longrightarrow> quantile_at xs n k = Inr (quantile_point (sort xs) n (Suc k))"
  by (simp add: quantile_at_def quantiles_def py_index_def Let_def)

lemma quantile_point_interpolates:
  assumes n: "n \<le> i * (length d + 1)" and u: "i * (length d + 1) < n * length d" and n0: "0 < n"
  shows "quantile_point d n i = interpolate d (real (i * (length d + 1)) / real n - 1)"
proof -
  define P where "P = i * (length d + 1)"
  define j where "j = P div n"
  define r where "r = P mod n"
  have j1: "1 \<le> j" using n n0 unfolding j_def P_def
    by (simp add: less_eq_div_iff_mult_less_eq)
  have jl: "j < length d" unfolding j_def P_def using u n0
    by (simp add: div_less_iff_less_mult mult.commute)
  have P: "P = j * n + r" unfolding j_def r_def by simp
  have lt: "r < n" unfolding r_def using n0 by simp
  have delta: "int P - int (j * n) = int r" using P by simp
  have fl0: "\<lfloor>real P / real n\<rfloor> = int j"
    unfolding j_def by (rule floor_divide_of_nat_eq)
  have fl: "\<lfloor>real P / real n - 1\<rfloor> = int j - 1"
    using fl0 by (simp only: floor_diff_one)
  have "real P = real j * real n + real r"
    by (simp only: P of_nat_add of_nat_mult)
  then have quot: "real P / real n = real j + real r / real n"
    using n0 by (simp add: field_simps)
  have fr: "frac (real P / real n - 1) = real r / real n"
    unfolding frac_def fl using quot by simp
  have k: "nat (int j - 1) = j - 1" by simp
  have k1: "j - 1 + 1 = j" using j1 by simp
  have jsel: "(if j < 1 then 1 else if j > length d - 1 then length d - 1 else j) = j"
    using j1 jl by simp
  have qp: "quantile_point d n i =
      (d ! (j - 1) * real_of_int (int n - int r) + d ! j * real_of_int (int r)) / real n"
    unfolding quantile_point_def Let_def P_def [symmetric] j_def [symmetric] jsel delta ..
  show ?thesis
    unfolding qp interpolate_def Let_def P_def [symmetric] fl fr k k1
    using n0 lt by (simp add: field_simps)
qed

lemma response_time_statistics_eq:
  assumes "rts \<noteq> []"
  shows "response_time_statistics rts = Inr
     \<lparr>min_response_time = Min (set rts), max_response_time = Max (set rts),
      mean_response_time = sum_list rts / real (length rts),
      median_response_time =
        (if length rts mod 2 = 1 then sort rts ! (length rts div 2)
         else (sort rts ! (length rts div 2 - 1) + sort rts ! (length rts div 2)) / 2),
      std_response_time =
        (if length rts > 1 then sqrt (sum_sq_dev rts / real (length rts - 1)) else 0),
      p25_response_time = (if length rts > 3 then quantile_point (sort rts) 4 1 else hd rts),
      p50_response_time = (if length rts > 1 then quantile_point (sort rts) 2 1 else hd rts),
      p75_response_time = (if length rts > 3 then quantile_point (sort rts) 4 3 else last rts),
      p90_response_time = (if length rts > 9 then quantile_point (sort rts) 10 9 else Max (set rts)),
      p95_response_time = (if length rts > 19 then quantile_point (sort rts) 20 19 else Max (set rts)),
      p99_response_time = (if length rts > 99 then quantile_point (sort rts) 100 99 else Max (set rts))\<rparr>"
proof -
  have q: "\<And>n k. length rts > 1 \<Longrightarrow> Suc k < n \<Longrightarrow>
      quantile_at rts n k = Inr (quantile_point (sort rts) n (Suc k))"
    by (rule quantile_at_eq)
  have q25: "length rts > 3 \<Longrightarrow> quantile_at rts 4 0 = Inr (quantile_point (sort rts) 4 1)"
    using q [of 0 4] by simp
  have q50: "length rts > 1 \<Longrightarrow> quantile_at rts 2 0 = Inr (quantile_point (sort rts) 2 1)"
    using q [of 0 2] by simp
  have q75: "length rts > 3 \<Longrightarrow> quantile_at rts 4 2 = Inr (quantile_point (sort rts) 4 3)"
    using q [of 2 4] by (simp add: eval_nat_numeral)
  have q90: "length rts > 9 \<Longrightarrow> quantile_at rts 10 8 = Inr (quantile_point (sort rts) 10 9)"
    using q [of 8 10] by (simp add: eval_nat_numeral)
  have q95: "length rts > 19 \<Longrightarrow> quantile_at rts 20 18 = Inr (quantile_point (sort rts) 20 19)"
    using q [of 18 20] by (simp add: eval_nat_numeral)
  have q99: "length rts > 99 \<Longrightarrow> quantile_at rts 100 98 = Inr (quantile_point (sort rts) 100 99)"
    using q [of 98 100] by simp
  show ?thesis
    unfolding response_time_statistics_def
    using assms
    by (simp add: bind_exn_def py_min_eq py_max_eq mean_eq median_eq stdev_eq
        py_index_0 py_last_eq q25 q50 q75 q90 q95 q99)
qed


lemma response_size_statistics_returns:
  "sizes \<noteq> [] \<Longrightarrow> \<exists>v. response_size_statistics sizes = Inr v"
  by (simp add: response_size_statistics_def bind_exn_def py_min_eq py_max_eq mean_eq median_eq)

lemma mean_and_max_returns: "xs \<noteq> [] \<Longrightarrow> \<exists>v. mean_and_max xs = Inr v"
  by (simp add: mean_and_max_def bind_exn_def py_max_eq mean_eq)

lemma optionally_returns:
  "(c \<Longrightarrow> \<exists>v. r = Inr v) \<Longrightarrow> \<exists>v. optionally c r = Inr v"
  by (auto simp: optionally_def)

lemma run_seconds_nonzero:
  assumes "truthy (end_time t)" and "truthy (start_time t)" and "end_time t \<noteq> start_time t"
  shows "run_seconds t \<noteq> 0"
  using assms by (auto simp: run_seconds_def truthy_def split: option.splits)

lemma generate_statistics_returns:
  assumes res: "results t \<noteq> []"
    and timing: "truthy (end_time t) \<and> truthy (start_time t) \<longrightarrow> end_time t \<noteq> start_time t"
  shows "\<exists>st. generate_statistics t = Inr (Some st) \<and>
     total_requests st = length (results t) \<and>
     successful_requests st = length (successful t) \<and>
     failed_requests st = length (failed t) \<and>
     status_code_distribution st = count_keys (map status_code (successful t)) \<and>
     response_time_stats st =
       (if response_times t = [] then None
        else (case response_time_statistics (response_times t) of Inr r \<Rightarrow> Some r | Inl e \<Rightarrow> None))"
proof -
  obtain sz where sz: "optionally (response_sizes t \<noteq> []) (response_size_statistics (response_sizes t)) = Inr sz"
    using optionally_returns [OF response_size_statistics_returns] by blast
  obtain dns where dns: "optionally (dns_times t \<noteq> []) (mean_and_max (dns_times t)) = Inr dns"
    using optionally_returns [OF mean_and_max_returns] by blast
  obtain conn where conn: "optionally (connect_times t \<noteq> []) (mean_and_max (connect_times t)) = Inr conn"
    using optionally_returns [OF mean_and_max_returns] by blast
  have rt: "optionally (response_times t \<noteq> []) (response_time_statistics (response_times t)) =
      Inr (if response_times t = [] then None
           else (case response_time_statistics (response_times t) of Inr r \<Rightarrow> Some r | Inl e \<Rightarrow> None))"
    by (simp add: optionally_def response_time_statistics_eq)
  have d: "truthy (end_time t) \<and> truthy (start_time t) \<Longrightarrow> run_seconds t \<noteq> 0"
    using timing run_seconds_nonzero by blast
  show ?thesis
    unfolding generate_statistics_def Let_def
    using res d by (simp add: bind_exn_def py_div_def sz dns conn rt)
qed

lemma rt_stat_eq:
  assumes "response_times t \<noteq> []"
    and "truthy (end_time t) \<and> truthy (start_time t) \<longrightarrow> end_time t \<noteq> start_time t"
    and "response_time_statistics (response_times t) = Inr r"
  shows "rt_stat key t = Some (key r)"
proof -
  have "results t \<noteq> []" using assms(1) by (auto simp: response_times_def successful_def)
  from generate_statistics_returns [OF this assms(2)] assms(1,3)
  show ?thesis by (auto simp: rt_stat_def)
qed


lemma stat_eq:
  assumes "results t \<noteq> []"
    and "truthy (end_time t) \<and> truthy (start_time t) \<longrightarrow> end_time t \<noteq> start_time t"
  shows "\<exists>st. generate_statistics t = Inr (Some st) \<and> (\<forall>key. stat key t = Some (key st))"
  using generate_statistics_returns [OF assms] by (auto simp: stat_def)

lemma exclusive_percentile_eq:
  assumes "n \<le> i * (length xs + 1)" and "i * (length xs + 1) < n * length xs" and "0 < n"
  shows "quantile_point (sort xs) n i = exclusive_percentile xs i n"
  using quantile_point_interpolates [of n i "sort xs"] assms
  by (simp add: exclusive_percentile_def)

lemma hd_single: "xs \<noteq> [] \<Longrightarrow> \<not> length xs > 1 \<Longrightarrow> hd xs = Min (set xs)"
  by (cases xs) simp_all

text \<open>
  Claim C1, as amended. For every tester with at least one successful result whose run
  time is not zero, \<open>generate_statistics\<close> reports percentiles computed by the linear
  interpolation of the exclusive method (the default of \<open>statistics.quantiles\<close>) on the sorted
  successful response times: P25 and P75 whenever there are more than 3 samples, P50 whenever
  there is more than one, P90, P95 and P99 whenever there are more than 9, 19 and 99. With a
  single sample P50 is the minimum of the sample; with too few samples P90, P95 and P99 are
  its maximum.
\<close>

theorem percentiles_exclusive_method:
  assumes nonempty: "response_times t \<noteq> []"
    and timing: "truthy (end_time t) \<and> truthy (start_time t) \<longrightarrow> end_time t \<noteq> start_time t"
  shows "(length (response_times t) > 3 \<longrightarrow>
            rt_stat p25_response_time t = Some (exclusive_percentile (response_times t) 1 4) \<and>
            rt_stat p75_response_time t = Some (exclusive_percentile (response_times t) 3 4)) \<and>
         rt_stat p50_response_time t =
           Some (if length (response_times t) > 1 then exclusive_percentile (response_times t) 1 2
                 else Min (set (response_times t))) \<and>
         rt_stat p90_response_time t =
           Some (if length (response_times t) > 9 then exclusive_percentile (response_times t) 9 10
                 else Max (set (response_times t))) \<and>
         rt_stat p95_response_time t =
           Some (if length (response_times t) > 19 then exclusive_percentile (response_times t) 19 20
                 else Max (set (response_times t))) \<and>
         rt_stat p99_response_time t =
           Some (if length (response_times t) > 99 then exclusive_percentile (response_times t) 99 100
                 else Max (set (response_times t)))"
proof -
  define rts where "rts = response_times t"
  have ne: "rts \<noteq> []" using nonempty by (simp add: rts_def)
  note st = rt_stat_eq [OF nonempty timing response_time_statistics_eq [OF nonempty], folded rts_def]
  have e25: "length rts > 3 \<Longrightarrow> quantile_point (sort rts) 4 1 = exclusive_percentile rts 1 4"
    by (rule exclusive_percentile_eq) simp_all
  have e75: "length rts > 3 \<Longrightarrow> quantile_point (sort rts) 4 3 = exclusive_percentile rts 3 4"
    by (rule exclusive_percentile_eq) simp_all
  have e50: "length rts > 1 \<Longrightarrow> quantile_point (sort rts) 2 1 = exclusive_percentile rts 1 2"
    by (rule exclusive_percentile_eq) simp_all
  have e90: "length rts > 9 \<Longrightarrow> quantile_point (sort rts) 10 9 = exclusive_percentile rts 9 10"
    by (rule exclusive_percentile_eq) simp_all
  have e95: "length rts > 19 \<Longrightarrow> quantile_point (sort rts) 20 19 = exclusive_percentile rts 19 20"
    by (rule exclusive_percentile_eq) simp_all
  have e99: "length rts > 99 \<Longrightarrow> quantile_point (sort rts) 100 99 = exclusive_percentile rts 99 100"
    by (rule exclusive_percentile_eq) simp_all
  have p25: "length rts > 3 \<Longrightarrow> rt_stat p25_response_time t = Some (exclusive_percentile rts 1 4)"
    using e25 by (simp add: st)
  have p75: "length rts > 3 \<Longrightarrow> rt_stat p75_response_time t = Some (exclusive_percentile rts 3 4)"
    using e75 by (simp add: st)
  have p50: "rt_stat p50_response_time t =
      Some (if length rts > 1 then exclusive_percentile rts 1 2 else Min (set rts))"
    using ne e50 by (simp add: st hd_single)
  have p90: "rt_stat p90_response_time t =
      Some (if length rts > 9 then exclusive_percentile rts 9 10 else Max (set rts))"
    using e90 by (simp add: st)
  have p95: "rt_stat p95_response_time t =
      Some (if length rts > 19 then exclusive_percentile rts 19 20 else Max (set rts))"
    using e95 by (simp add: st)
  have p99: "rt_stat p99_response_time t =
      Some (if length rts > 99 then exclusive_percentile rts 99 100 else Max (set rts))"
    using e99 by (simp add: st)
  show ?thesis
    unfolding rts_def [symmetric] using p25 p75 p50 p90 p95 p99 by blast
qed


lemmas sample_defs = sample_tester_def sample_result_def response_times_def successful_def
  failed_def truthy_def

lemmas stat_defs = response_time_statistics_def bind_exn_def py_min_def py_max_def mean_def
  median_def stdev_def variance_def sum_sq_dev_def quantile_at_def quantiles_def
  quantile_point_def py_index_def py_last_def

lemma sample_rt_stat:
  assumes "rs \<noteq> []" and "\<forall>x \<in> set rs. error x = None"
  shows "rt_stat key (sample_tester rs) =
    (case response_time_statistics (map response_time rs) of
       Inr r \<Rightarrow> Some (key r) | Inl e \<Rightarrow> None)"
proof -
  have f: "filter (\<lambda>r. error r = None) rs = rs" using assms(2) by (simp add: filter_id_conv)
  have rt: "response_times (sample_tester rs) = map response_time rs"
    by (simp add: response_times_def successful_def sample_tester_def f)
  have ne: "response_times (sample_tester rs) \<noteq> []" using assms(1) rt by simp
  obtain r where r: "response_time_statistics (response_times (sample_tester rs)) = Inr r"
    using response_time_statistics_eq [OF ne] by blast
  have "rt_stat key (sample_tester rs) = Some (key r)"
    by (rule rt_stat_eq [OF ne _ r]) (simp add: sample_tester_def truthy_def)
  then show ?thesis using r rt by simp
qed

theorem percentiles_exclusive_method_witness:
  "rt_stat p25_response_time (sample_tester
      [sample_result 4 200 None 0, sample_result 2 200 None 0,
       sample_result 1 200 None 0, sample_result 3 200 None 0]) =
     Some (exclusive_percentile [4, 2, 1, 3] 1 4) \<and>
   rt_stat p90_response_time (sample_tester
      [sample_result 4 200 None 0, sample_result 2 200 None 0,
       sample_result 1 200 None 0, sample_result 3 200 None 0]) = Some 4"
  using percentiles_exclusive_method [of "sample_tester
      [sample_result 4 200 None 0, sample_result 2 200 None 0,
       sample_result 1 200 None 0, sample_result 3 200 None 0]"]
  by (simp add: sample_defs)

text \<open>
  The claim as stated fails: on the samples 4, 2, 1, 3 the reported P25 is 5/4 where the
  inclusive method gives 7/4; and on the samples 3, 1 the reported P25 is 3, the first
  sample appended, where the minimum is 1.
\<close>

theorem percentiles_inclusive_counterexample:
  "rt_stat p25_response_time (sample_tester
      [sample_result 4 200 None 0, sample_result 2 200 None 0,
       sample_result 1 200 None 0, sample_result 3 200 None 0]) = Some (5 / 4) \<and>
   inclusive_percentile [4, 2, 1, 3] 1 4 = 7 / 4 \<and>
   rt_stat p25_response_time (sample_tester
      [sample_result 3 200 None 0, sample_result 1 200 None 0]) = Some 3 \<and>
   Min (set [3, 1 :: real]) = 1"
proof -
  have "rt_stat p25_response_time (sample_tester
      [sample_result 4 200 None 0, sample_result 2 200 None 0,
       sample_result 1 200 None 0, sample_result 3 200 None 0]) = Some (5 / 4)"
    by (simp add: sample_rt_stat sample_result_def stat_defs power2_eq_square)
  moreover have "inclusive_percentile [4, 2, 1, 3] 1 4 = 7 / 4"
    by (simp add: inclusive_percentile_def interpolate_def frac_def)
  moreover have "rt_stat p25_response_time (sample_tester
      [sample_result 3 200 None 0, sample_result 1 200 None 0]) = Some 3"
    by (simp add: sample_rt_stat sample_result_def stat_defs)
  ultimately show ?thesis by simp
qed

text \<open>
  Claim C2 at a failing input: two successful results appended in the order 3 s, 1 s. The
  reported P25 is the first appended time and the reported P75 the last appended one, so
  P25 = 3 exceeds P50 = 2, which exceeds P75 = 1.
\<close>

theorem percentiles_not_monotone:
  "rt_stat p25_response_time (sample_tester
      [sample_result 3 200 None 0, sample_result 1 200 None 0]) = Some 3 \<and>
   rt_stat p50_response_time (sample_tester
      [sample_result 3 200 None 0, sample_result 1 200 None 0]) = Some 2 \<and>
   rt_stat p75_response_time (sample_tester
      [sample_result 3 200 None 0, sample_result 1 200 None 0]) = Some 1"
  by (simp add: sample_rt_stat sample_result_def stat_defs)

subsection \<open>Standard deviation\<close>

lemma sum_list_shift: "sum_list (map (\<lambda>x. x - c) xs) = sum_list xs - real (length xs) * (c::real)"
  by (induction xs) (simp_all add: algebra_simps)

lemma sum_sq_dev_eq:
  assumes "xs \<noteq> []"
  shows "sum_sq_dev xs = sum_list (map (\<lambda>x. (x - sum_list xs / real (length xs)) ^ 2) xs)"
proof -
  have "sum_list (map (\<lambda>x. x - sum_list xs / real (length xs)) xs) = 0"
    using assms by (simp add: sum_list_shift)
  then show ?thesis by (simp add: sum_sq_dev_def Let_def)
qed

text \<open>
  Claim C9, as amended. For every tester with at least one successful result whose run
  time is not zero, the reported \<open>std_response_time\<close> is the sample standard deviation of
  the successful response times (denominator \<open>n - 1\<close>, as \<open>statistics.stdev\<close> computes it)
  when there are two or more samples, and 0 when there is exactly one.
\<close>

theorem std_is_sample_stdev:
  assumes nonempty: "response_times t \<noteq> []"
    and timing: "truthy (end_time t) \<and> truthy (start_time t) \<longrightarrow> end_time t \<noteq> start_time t"
  shows "rt_stat std_response_time t =
           Some (if length (response_times t) > 1 then sample_stdev (response_times t) else 0)"
  using nonempty
  by (simp add: rt_stat_eq [OF nonempty timing response_time_statistics_eq [OF nonempty]]
      sample_stdev_def sum_sq_dev_eq)

theorem std_is_sample_stdev_witness:
  "rt_stat std_response_time (sample_tester
      [sample_result 3 200 None 0, sample_result 1 200 None 0]) = Some (sample_stdev [3, 1]) \<and>
   rt_stat std_response_time (sample_tester [sample_result 3 200 None 0]) = Some 0"
  using std_is_sample_stdev [of "sample_tester
      [sample_result 3 200 None 0, sample_result 1 200 None 0]"]
    std_is_sample_stdev [of "sample_tester [sample_result 3 200 None 0]"]
  by (simp add: sample_defs)

text \<open>
  The claim as stated fails: for the samples 3 and 1 the reported value is \<open>sqrt 2\<close>, the
  population standard deviation is 1.
\<close>

theorem std_population_counterexample:
  "rt_stat std_response_time (sample_tester
      [sample_result 3 200 None 0, sample_result 1 200 None 0]) = Some (sqrt 2) \<and>
   population_stdev [3, 1] = 1 \<and> sqrt 2 \<noteq> 1"
  by (simp add: sample_rt_stat sample_result_def stat_defs population_stdev_def)

subsection \<open>Dictionaries of counters\<close>

lemma dict_get_set:
  "dict_get (dict_set d k v) k' dflt = (if k' = k then v else dict_get d k' dflt)"
  by (induction d) auto

lemma dict_keys_set: "fst ` set (dict_set d k v) = insert k (fst ` set d)"
  by (induction d) auto

lemma dict_sum_bump:
  "sum_list (map snd (dict_set d k (Suc (dict_get d k 0)))) = Suc (sum_list (map snd d))"
  by (induction d) auto

lemma dict_get_absent: "k \<notin> fst ` set d \<Longrightarrow> dict_get d k dflt = dflt"
  by (induction d) auto

lemma fold_count_get:
  "dict_get (fold (\<lambda>k d. dict_set d k (Suc (dict_get d k 0))) ks d) c 0 =
     dict_get d c 0 + length (filter (\<lambda>k. k = c) ks)"
  by (induction ks arbitrary: d) (auto simp: dict_get_set)

lemma fold_count_keys:
  "fst ` set (fold (\<lambda>k d. dict_set d k (Suc (dict_get d k 0))) ks d) = fst ` set d \<union> set ks"
  by (induction ks arbitrary: d) (auto simp: dict_keys_set)

lemma fold_count_sum:
  "sum_list (map snd (fold (\<lambda>k d. dict_set d k (Suc (dict_get d k 0))) ks d)) =
     sum_list (map snd d) + length ks"
  by (induction ks arbitrary: d) (auto simp: dict_sum_bump)

lemma count_keys_get: "dict_get (count_keys ks) c 0 = length (filter (\<lambda>k. k = c) ks)"
  by (simp add: count_keys_def fold_count_get)

lemma count_keys_keys: "fst ` set (count_keys ks) = set ks"
  by (simp add: count_keys_def fold_count_keys)

lemma count_keys_sum: "sum_list (map snd (count_keys ks)) = length ks"
  by (simp add: count_keys_def fold_count_sum)

text \<open>
  Claim C4, as amended. For every non-empty results list (run time not zero), the
  \<open>status_code_distribution\<close> counts exactly the results whose error field is \<open>None\<close>:
  the count under a status code is the number of error-free results with that code, and
  its keys are the status codes of the error-free results. A result whose error field is
  set, by an assertion or otherwise, contributes nothing, whatever its status code.
\<close>

theorem distribution_counts_error_free_results:
  assumes res: "results t \<noteq> []"
    and timing: "truthy (end_time t) \<and> truthy (start_time t) \<longrightarrow> end_time t \<noteq> start_time t"
  shows "\<exists>d. stat status_code_distribution t = Some d \<and>
           (\<forall>c. dict_get d c 0 =
                  length (filter (\<lambda>r. error r = None \<and> status_code r = c) (results t))) \<and>
           fst ` set d = {status_code r | r. r \<in> set (results t) \<and> error r = None}"
proof -
  from generate_statistics_returns [OF res timing]
  have s: "stat status_code_distribution t = Some (count_keys (map status_code (successful t)))"
    by (auto simp: stat_def)
  have g: "dict_get (count_keys (map status_code (successful t))) c 0 =
      length (filter (\<lambda>r. error r = None \<and> status_code r = c) (results t))" for c
    by (simp add: count_keys_get successful_def filter_map comp_def conj_commute)
  have k: "fst ` set (count_keys (map status_code (successful t))) =
      {status_code r | r. r \<in> set (results t) \<and> error r = None}"
    by (auto simp: count_keys_keys successful_def)
  show ?thesis using s g k by blast
qed

theorem distribution_counts_error_free_results_witness:
  "\<exists>d. stat status_code_distribution (sample_tester
      [sample_result 1 200 None 5, sample_result 2 500 (Some ''Assert status 200 failed (got 500)'') 7]) = Some d \<and>
     dict_get d 200 0 = 1 \<and> dict_get d 500 0 = 0"
proof -
  from distribution_counts_error_free_results [of "sample_tester
      [sample_result 1 200 None 5, sample_result 2 500 (Some ''Assert status 200 failed (got 500)'') 7]"]
  obtain d where "stat status_code_distribution (sample_tester
      [sample_result 1 200 None 5, sample_result 2 500 (Some ''Assert status 200 failed (got 500)'') 7]) = Some d"
    and "\<forall>c. dict_get d c 0 = length (filter (\<lambda>r. error r = None \<and> status_code r = c)
       (results (sample_tester
      [sample_result 1 200 None 5, sample_result 2 500 (Some ''Assert status 200 failed (got 500)'') 7])))"
    by (auto simp: sample_defs)
  then show ?thesis by (simp add: sample_defs)
qed

text \<open>
  The claim as stated fails: a single result with status code 500 and an assertion's
  error message leaves the distribution empty.
\<close>

theorem distribution_omits_assertion_failures:
  "stat status_code_distribution (sample_tester
      [sample_result 2 500 (Some ''Assert status 200 failed (got 500)'') 7]) = Some []"
proof -
  have "\<exists>st. generate_statistics (sample_tester
      [sample_result 2 500 (Some ''Assert status 200 failed (got 500)'') 7]) = Inr (Some st) \<and>
      status_code_distribution st = []"
    using generate_statistics_returns [of "sample_tester
      [sample_result 2 500 (Some ''Assert status 200 failed (got 500)'') 7]"]
    by (auto simp: sample_defs count_keys_def)
  then show ?thesis by (auto simp: stat_def)
qed

text \<open>
  Claim C6. For every non-empty results list (run time not zero), \<open>generate_statistics\<close>
  returns counts that partition the results: \<open>successful_requests\<close> is the number of
  results whose error field is \<open>None\<close>, \<open>failed_requests\<close> the number of results whose
  error field is set, their sum is \<open>total_requests\<close>, the length of the list, and the
  values of \<open>status_code_distribution\<close> sum to at most \<open>total_requests\<close>.
\<close>

theorem counts_partition_results:
  assumes res: "results t \<noteq> []"
    and timing: "truthy (end_time t) \<and> truthy (start_time t) \<longrightarrow> end_time t \<noteq> start_time t"
  shows "\<exists>st. generate_statistics t = Inr (Some st) \<and>
           total_requests st = length (results t) \<and>
           successful_requests st = length (filter (\<lambda>r. error r = None) (results t)) \<and>
           failed_requests st = length (filter (\<lambda>r. error r \<noteq> None) (results t)) \<and>
           successful_requests st + failed_requests st = total_requests st \<and>
           sum_list (map snd (status_code_distribution st)) \<le> total_requests st"
proof -
  from generate_statistics_returns [OF res timing]
  obtain st where st: "generate_statistics t = Inr (Some st)"
    "total_requests st = length (results t)"
    "successful_requests st = length (successful t)"
    "failed_requests st = length (failed t)"
    "status_code_distribution st = count_keys (map status_code (successful t))"
    by blast
  have part: "length (successful t) + length (failed t) = length (results t)"
    unfolding successful_def failed_def by (rule sum_length_filter_compl)
  have "sum_list (map snd (status_code_distribution st)) = length (successful t)"
    by (simp add: st count_keys_sum)
  then show ?thesis using st part by (auto simp: successful_def failed_def)
qed

theorem counts_partition_results_witness:
  "\<exists>st. generate_statistics (sample_tester
      [sample_result 1 200 None 5, sample_result 2 0 (Some ''timeout'') 0]) = Inr (Some st) \<and>
     total_requests st = 2 \<and> successful_requests st = 1 \<and> failed_requests st = 1 \<and>
     sum_list (map snd (status_code_distribution st)) \<le> 2"
  using counts_partition_results [of "sample_tester
      [sample_result 1 200 None 5, sample_result 2 0 (Some ''timeout'') 0]"]
  by (auto simp: sample_defs)

section \<open>Properties of the request and the worker\<close>

lemma starts_with_iff: "starts_with xs ys \<longleftrightarrow> (\<exists>s. xs = ys @ s)"
  by (induction xs ys rule: starts_with.induct) auto

lemma str_contains_iff: "str_contains hay needle \<longleftrightarrow> (\<exists>p s. hay = p @ needle @ s)"
proof (induction hay)
  case Nil
  then show ?case by simp
next
  case (Cons x xs)
  have "(\<exists>p s. x # xs = p @ needle @ s) \<longleftrightarrow>
      (\<exists>s. x # xs = needle @ s) \<or> (\<exists>p s. xs = p @ needle @ s)"
  proof
    assume "\<exists>p s. x # xs = p @ needle @ s"
    then obtain p s where ps: "x # xs = p @ needle @ s" by blast
    show "(\<exists>s. x # xs = needle @ s) \<or> (\<exists>p s. xs = p @ needle @ s)"
    proof (cases p)
      case Nil
      then show ?thesis using ps by auto
    next
      case (Cons a p')
      then have "xs = p' @ needle @ s" using ps by simp
      then show ?thesis by blast
    qed
  next
    assume "(\<exists>s. x # xs = needle @ s) \<or> (\<exists>p s. xs = p @ needle @ s)"
    then show "\<exists>p s. x # xs = p @ needle @ s"
    proof
      assume "\<exists>s. x # xs = needle @ s"
      then obtain s where "x # xs = [] @ needle @ s" by auto
      then show ?thesis by blast
    next
      assume "\<exists>p s. xs = p @ needle @ s"
      then obtain p s where "x # xs = (x # p) @ needle @ s" by auto
      then show ?thesis by blast
    qed
  qed
  then show ?case using Cons.IH by (simp add: starts_with_iff)
qed

lemma form_failure_None_iff:
  "(if use_form t then form_file_failure opn (form_file t) else None) = None \<longleftrightarrow>
     form_file_failure opn (form_file t) = None"
  by (cases "form_file t") (auto simp: use_form_def)

lemma make_request_response:
  assumes "form_file_failure (open_form_file env) (form_file t) = None"
    and "request_outcome env t = Response status body"
  shows "make_request env t u m =
     Inr (\<lparr>url = u, http_method = m, status_code = status,
           response_time = elapsed env, timestamp = clock_start env,
           error = check_assertions env t status body (elapsed env),
           response_size = length body\<rparr>,
          t\<lparr>response_sizes := response_sizes t @ [length body]\<rparr>)"
  using assms by (simp add: make_request_def)

lemma make_request_raised:
  assumes "form_file_failure (open_form_file env) (form_file t) = None"
    and "request_outcome env t = Raised msg"
  shows "make_request env t u m =
     Inr (\<lparr>url = u, http_method = m, status_code = 0, response_time = elapsed env,
           timestamp = clock_start env, error = Some msg, response_size = 0\<rparr>, t)"
  using assms by (simp add: make_request_def)

lemma make_request_file_error:
  assumes "form_file_failure (open_form_file env) (form_file t) = Some msg"
  shows "make_request env t u m =
     Inr (\<lparr>url = u, http_method = m, status_code = 0, response_time = 0,
           timestamp = clock_start env, error = Some (''File error: '' @ msg),
           response_size = 0\<rparr>, t)"
proof -
  have "use_form t" using assms by (cases "form_file t") (auto simp: use_form_def)
  then show ?thesis using assms by (simp add: make_request_def)
qed

lemma error_kind_status [simp]: "error_kind_of (assert_status_message a b) = AssertStatus"
  by (simp add: error_kind_of_def assert_status_message_def)

lemma error_kind_body [simp]: "error_kind_of (assert_body_message s) = AssertBody"
  by (simp add: error_kind_of_def assert_body_message_def)

lemma error_kind_body_decode [simp]: "error_kind_of (assert_body_decode_message s) = AssertBody"
  by (simp add: error_kind_of_def assert_body_decode_message_def)

lemma error_kind_max_rt [simp]: "error_kind_of (assert_max_rt_message env l r) = AssertMaxRT"
  by (simp add: error_kind_of_def assert_max_rt_message_def)

lemma check_assertions_kind:
  "map_option error_kind_of (check_assertions env t status body (elapsed env)) =
     (if max_rt_assertion_fails env t then Some AssertMaxRT
      else if body_assertion_fails env t body then Some AssertBody
      else if status_assertion_fails t status then Some AssertStatus
      else None)"
  by (auto simp: check_assertions_def check_max_rt_def check_body_def check_status_def
      max_rt_assertion_fails_def body_assertion_fails_def status_assertion_fails_def
      split: option.splits)

text \<open>
  Claim C7, as amended. For every response obtained (no form file failed, the request
  returned a response), the result records the real status code, and its error is that of
  the last failing assertion in the order status, body, maximum response time: the
  AssertMaxRT kind if the maximum response time is set and exceeded; otherwise the
  AssertBody kind if a non-empty body substring is set and the leniently decoded body does
  not contain it (or cannot be decoded); otherwise the AssertStatus kind if an expected
  status is set and differs; otherwise no error.
\<close>

theorem assertion_last_failure_wins:
  assumes "form_file_failure (open_form_file env) (form_file t) = None"
    and "request_outcome env t = Response status body"
  shows "\<exists>r t'. make_request env t u m = Inr (r, t') \<and>
           status_code r = status \<and>
           map_option error_kind_of (error r) =
             (if max_rt_assertion_fails env t then Some AssertMaxRT
              else if body_assertion_fails env t body then Some AssertBody
              else if status_assertion_fails t status then Some AssertStatus
              else None)"
  by (simp add: make_request_response [OF assms] check_assertions_kind)


lemmas request_sample_defs = sample_env_def asserting_tester_def sample_tester_def
  sample_state_def

lemmas request_defs = make_request_def request_outcome_def use_form_def nonempty_str_def
  check_assertions_def check_max_rt_def check_body_def check_status_def
  assert_status_message_def assert_body_message_def assert_body_decode_message_def
  assert_max_rt_message_def str_int_def

theorem assertion_last_failure_wins_witness:
  "\<exists>r t'. make_request (sample_env (Response 500 ''oops'') 2)
       (asserting_tester (Some 200) (Some ''ok'') None) ''http://a/'' ''GET'' = Inr (r, t') \<and>
     status_code r = 500 \<and> map_option error_kind_of (error r) = Some AssertBody"
  using assertion_last_failure_wins [of "sample_env (Response 500 ''oops'') 2"
      "asserting_tester (Some 200) (Some ''ok'') None" 500 "''oops''" "''http://a/''" "''GET''"]
  by (simp add: request_sample_defs request_outcome_def use_form_def nonempty_str_def
      max_rt_assertion_fails_def body_assertion_fails_def)

text \<open>
  The claim as stated fails: with expected status 200 and maximum response time 1 s, a
  500 response after 2 s fails the status assertion, yet the result carries the message
  of the AssertMaxRT kind.
\<close>

theorem assertion_status_overridden:
  "make_request (sample_env (Response 500 ''oops'') 2)
       (asserting_tester (Some 200) None (Some 1)) ''http://a/'' ''GET'' =
     Inr (\<lparr>url = ''http://a/'', http_method = ''GET'', status_code = 500, response_time = 2,
           timestamp = 100,
           error = Some ''Assert max response time 1.0s failed (got 2.000s)'',
           response_size = 4\<rparr>,
          (asserting_tester (Some 200) None (Some 1))\<lparr>response_sizes := [4]\<rparr>) \<and>
   status_assertion_fails (asserting_tester (Some 200) None (Some 1)) 500 \<and>
   error_kind_of ''Assert max response time 1.0s failed (got 2.000s)'' = AssertMaxRT"
  by (simp add: request_sample_defs request_defs status_assertion_fails_def error_kind_of_def)

text \<open>
  Claim C8, as amended. For every result that \<open>make_request\<close> returns: when no response
  was obtained (a form file could not be opened, or the request raised an exception), the
  status code is 0, the error is set and \<open>response_size\<close> is 0; when a response was
  obtained, \<open>response_size\<close> is the length of the body, whether or not an assertion set
  the error.
\<close>

theorem response_size_by_outcome:
  assumes "make_request env t u m = Inr (r, t')"
  shows "(\<forall>status body.
            form_file_failure (open_form_file env) (form_file t) = None \<and>
            request_outcome env t = Response status body \<longrightarrow>
            response_size r = length body \<and> status_code r = status) \<and>
         (form_file_failure (open_form_file env) (form_file t) \<noteq> None \<or>
            (\<exists>msg. request_outcome env t = Raised msg) \<longrightarrow>
            response_size r = 0 \<and> status_code r = 0 \<and> error r \<noteq> None)"
proof (cases "form_file_failure (open_form_file env) (form_file t)")
  case (Some msg)
  then show ?thesis using assms by (auto simp: make_request_file_error)
next
  case None
  show ?thesis
  proof (cases "request_outcome env t")
    case (Response status body)
    from assms show ?thesis
      unfolding make_request_response [OF None Response] using None Response by auto
  next
    case (Raised msg)
    from assms show ?thesis
      unfolding make_request_raised [OF None Raised] using None Raised by auto
  next
    case RaisedBase
    from assms None show ?thesis
      by (simp add: make_request_def RaisedBase)
  qed
qed

theorem response_size_by_outcome_witness:
  "make_request (sample_env (Raised ''Connection refused'') 2)
       (asserting_tester None None None) ''http://a/'' ''GET'' =
     Inr (\<lparr>url = ''http://a/'', http_method = ''GET'', status_code = 0, response_time = 2,
           timestamp = 100, error = Some ''Connection refused'', response_size = 0\<rparr>,
          asserting_tester None None None) \<and>
   response_size \<lparr>url = ''http://a/'', http_method = ''GET'', status_code = 0, response_time = 2,
     timestamp = 100, error = Some ''Connection refused'', response_size = 0\<rparr> = 0"
  using response_size_by_outcome [of "sample_env (Raised ''Connection refused'') 2"
      "asserting_tester None None None" "''http://a/''" "''GET''"
      "\<lparr>url = ''http://a/'', http_method = ''GET'', status_code = 0, response_time = 2,
        timestamp = 100, error = Some ''Connection refused'', response_size = 0\<rparr>"
      "asserting_tester None None None"]
  by (simp add: request_sample_defs request_defs)

text \<open>
  The claim as stated fails: a 500 response with the four-byte body \<open>oops\<close> that fails
  the status assertion yields a result with the error set and \<open>response_size = 4\<close>.
\<close>

theorem failed_result_with_nonzero_size:
  "make_request (sample_env (Response 500 ''oops'') 2)
       (asserting_tester (Some 200) None None) ''http://a/'' ''GET'' =
     Inr (\<lparr>url = ''http://a/'', http_method = ''GET'', status_code = 500, response_time = 2,
           timestamp = 100, error = Some ''Assert status 200 failed (got 500)'',
           response_size = 4\<rparr>,
          (asserting_tester (Some 200) None None)\<lparr>response_sizes := [4]\<rparr>)"
  by (simp add: request_sample_defs request_defs)


lemma request_outcome_not_base:
  "http_exchange env \<noteq> RaisedBase \<Longrightarrow> request_outcome env t \<noteq> RaisedBase"
  by (auto simp: request_outcome_def split: option.splits)

lemma make_request_returns:
  assumes "http_exchange env \<noteq> RaisedBase"
  shows "\<exists>r t'. make_request env t u m = Inr (r, t') \<and> url r = u \<and>
           results t' = results t \<and> progress_bar t' = progress_bar t \<and>
           (\<forall>msg. form_file_failure (open_form_file env) (form_file t) = Some msg \<longrightarrow>
              status_code r = 0 \<and> error r = Some (''File error: '' @ msg)) \<and>
           (\<forall>msg. form_file_failure (open_form_file env) (form_file t) = None \<and>
              request_outcome env t = Raised msg \<longrightarrow>
              status_code r = 0 \<and> error r = Some msg)"
proof (cases "form_file_failure (open_form_file env) (form_file t)")
  case (Some msg)
  then show ?thesis by (simp add: make_request_file_error)
next
  case None
  show ?thesis
  proof (cases "request_outcome env t")
    case (Response status body)
    then show ?thesis using None by (simp add: make_request_response)
  next
    case (Raised msg)
    then show ?thesis using None by (simp add: make_request_raised)
  next
    case RaisedBase
    then show ?thesis using request_outcome_not_base [OF assms] by simp
  qed
qed

lemma results_update_progress [simp]: "results (update_progress t) = results t"
  by (simp add: update_progress_def split: option.splits)

lemma finally_task_done_fields [simp]:
  "tester (finally_task_done s) = tester s"
  "queue (finally_task_done s) = queue s"
  "stdout (finally_task_done s) = stdout s"
  "unfinished_tasks (finally_task_done s) = unfinished_tasks s - 1"
  by (simp_all add: finally_task_done_def task_done_def)

lemma worker_iteration_pulled:
  assumes pulled: "queue s = Some i # rest"
    and urls: "us \<noteq> []"
    and not_base: "http_exchange (env i) \<noteq> RaisedBase"
  shows "\<exists>r s'. worker_iteration env us m s = (s', Continue) \<and>
           results (tester s') = results (tester s) @ [r] \<and>
           queue s' = rest \<and>
           url r = us ! (i mod length us) \<and>
           (\<forall>msg. form_file_failure (open_form_file (env i)) (form_file (tester s)) = Some msg \<longrightarrow>
              status_code r = 0 \<and> error r = Some (''File error: '' @ msg)) \<and>
           (\<forall>msg. form_file_failure (open_form_file (env i)) (form_file (tester s)) = None \<and>
              request_outcome (env i) (tester s) = Raised msg \<longrightarrow>
              status_code r = 0 \<and> error r = Some msg)"
proof -
  from make_request_returns [OF not_base, of "tester s" "us ! (i mod length us)" m]
  obtain r t' where r: "make_request (env i) (tester s) (us ! (i mod length us)) m = Inr (r, t')"
    "url r = us ! (i mod length us)" "results t' = results (tester s)"
    "\<forall>msg. form_file_failure (open_form_file (env i)) (form_file (tester s)) = Some msg \<longrightarrow>
       status_code r = 0 \<and> error r = Some (''File error: '' @ msg)"
    "\<forall>msg. form_file_failure (open_form_file (env i)) (form_file (tester s)) = None \<and>
       request_outcome (env i) (tester s) = Raised msg \<longrightarrow>
       status_code r = 0 \<and> error r = Some msg"
    by blast
  have "worker_iteration env us m s =
      (finally_task_done
         (s\<lparr>queue := rest,
            tester := update_progress (t'\<lparr>results := results t' @ [r]\<rparr>)\<rparr>), Continue)"
    using pulled urls r(1) by (simp add: worker_iteration_def select_url_def Let_def)
  then show ?thesis using r by simp
qed

text \<open>
  Claim C3, as amended. For every ID a worker pulls from the queue, when the URL list is
  not empty and the request is not interrupted by an exception outside \<open>Exception\<close>
  (task cancellation, keyboard interrupt), exactly one result is appended to the results
  list, for the URL at index \<open>id mod len(urls)\<close>; the ID leaves the queue and is not put
  back; the loop continues. An exception raised while making the request is captured in
  the result with status code 0 and its message (prefixed \<open>File error: \<close> for a form
  file that cannot be opened).
\<close>

theorem worker_one_result_per_id:
  assumes pulled: "queue s = Some i # rest"
    and urls: "us \<noteq> []"
    and not_base: "http_exchange (env i) \<noteq> RaisedBase"
  shows "\<exists>r s'. worker_iteration env us m s = (s', Continue) \<and>
           results (tester s') = results (tester s) @ [r] \<and>
           queue s' = rest \<and>
           url r = us ! (i mod length us) \<and>
           (\<forall>msg. form_file_failure (open_form_file (env i)) (form_file (tester s)) = Some msg \<longrightarrow>
              status_code r = 0 \<and> error r = Some (''File error: '' @ msg)) \<and>
           (\<forall>msg. form_file_failure (open_form_file (env i)) (form_file (tester s)) = None \<and>
              request_outcome (env i) (tester s) = Raised msg \<longrightarrow>
              status_code r = 0 \<and> error r = Some msg)"
  using assms by (rule worker_iteration_pulled)

theorem worker_one_result_per_id_witness:
  "\<exists>r s'. worker_iteration (\<lambda>i. sample_env (Raised ''Connection refused'') 2)
        [''http://a/'', ''http://b/''] ''GET'' (sample_state [Some 3, None] 2) = (s', Continue) \<and>
     results (tester s') = [r] \<and> queue s' = [None] \<and> url r = ''http://b/'' \<and>
     status_code r = 0 \<and> error r = Some ''Connection refused''"
proof -
  have m: "[''http://a/'', ''http://b/''] ! (3 mod length [''http://a/'', ''http://b/'']) = ''http://b/''"
    by code_simp
  show ?thesis
    using worker_one_result_per_id [of "sample_state [Some 3, None] 2" 3 "[None]"
      "[''http://a/'', ''http://b/'']" "\<lambda>i. sample_env (Raised ''Connection refused'') 2" "''GET''"]
    unfolding m
    by (simp add: request_sample_defs request_outcome_def use_form_def nonempty_str_def)
qed

text \<open>
  The claim as stated fails: when the request for a pulled ID is interrupted by an
  exception outside \<open>Exception\<close>, the exception leaves the worker (after \<open>task_done\<close>) and
  no result is appended for that ID.
\<close>

theorem worker_base_exception_no_result:
  "worker_iteration (\<lambda>i. sample_env RaisedBase 2) [''http://a/''] ''GET''
      (sample_state [Some 0, None] 2) = (sample_state [None] 1, Propagate) \<and>
   results (tester (sample_state [None] 1)) = []"
  by (simp add: worker_iteration_def select_url_def request_sample_defs request_defs
      finally_task_done_def task_done_def)

text \<open>
  Claim C10. When the queue is empty, so that the wait for an item times out, the
  iteration breaks out of the loop and the worker returns, with nothing appended and
  nothing printed; its \<open>finally\<close> clause still calls \<open>task_done\<close>, which decrements the
  counter of unfinished tasks when it is positive and raises \<open>ValueError\<close> when it is
  zero, an error the worker swallows (the state is then unchanged).
\<close>

theorem worker_timeout_exit:
  assumes "queue s = []"
  shows "worker_iteration env us m s =
           ((if unfinished_tasks s = 0 then s
             else s\<lparr>unfinished_tasks := unfinished_tasks s - 1\<rparr>), Break) \<and>
         worker env us m s =
           ((if unfinished_tasks s = 0 then s
             else s\<lparr>unfinished_tasks := unfinished_tasks s - 1\<rparr>), Break) \<and>
         task_done s =
           (if unfinished_tasks s = 0 then Inl ValueError
            else Inr (s\<lparr>unfinished_tasks := unfinished_tasks s - 1\<rparr>))"
proof -
  have it: "worker_iteration env us m s =
      ((if unfinished_tasks s = 0 then s
        else s\<lparr>unfinished_tasks := unfinished_tasks s - 1\<rparr>), Break)"
    using assms by (simp add: worker_iteration_def finally_task_done_def task_done_def)
  have "worker env us m s =
      ((if unfinished_tasks s = 0 then s
        else s\<lparr>unfinished_tasks := unfinished_tasks s - 1\<rparr>), Break)"
    by (subst worker.simps) (simp add: it)
  then show ?thesis using it by (simp add: task_done_def)
qed

theorem worker_timeout_exit_witness:
  "worker (\<lambda>i. sample_env RaisedBase 2) [''http://a/''] ''GET'' (sample_state [] 0) =
     (sample_state [] 0, Break) \<and>
   worker (\<lambda>i. sample_env RaisedBase 2) [''http://a/''] ''GET'' (sample_state [] 3) =
     (sample_state [] 2, Break)"
  using worker_timeout_exit [of "sample_state [] 0" "\<lambda>i. sample_env RaisedBase 2"
      "[''http://a/'']" "''GET''"]
    worker_timeout_exit [of "sample_state [] 3" "\<lambda>i. sample_env RaisedBase 2"
      "[''http://a/'']" "''GET''"]
  by (simp add: sample_state_def)


text \<open>
  The whole loop. A worker that finds the IDs \<open>ids\<close> at the head of the queue, followed by
  a stop signal, returns after the stop signal, having appended one result per ID, in
  the order of the IDs, each for the URL at index \<open>id mod len(urls)\<close>, provided the URL list
  is not empty and no request is interrupted by an exception outside \<open>Exception\<close>.
\<close>

theorem worker_drains_queue:
  assumes us: "us \<noteq> []" and nb: "\<forall>i. http_exchange (env i) \<noteq> RaisedBase"
  shows "queue s = map Some ids @ None # later \<Longrightarrow>
     \<exists>s'. worker env us m s = (s', Break) \<and> queue s' = later \<and>
       map url (results (tester s')) =
         map url (results (tester s)) @ map (\<lambda>i. us ! (i mod length us)) ids"
proof (induction ids arbitrary: s)
  case Nil
  then have "worker_iteration env us m s = (finally_task_done (s\<lparr>queue := later\<rparr>), Break)"
    by (simp add: worker_iteration_def)
  then have "worker env us m s = (finally_task_done (s\<lparr>queue := later\<rparr>), Break)"
    by (subst worker.simps) simp
  then show ?case by simp
next
  case (Cons i ids)
  then have q: "queue s = Some i # (map Some ids @ None # later)" by simp
  have nbi: "http_exchange (env i) \<noteq> RaisedBase" using nb by simp
  from worker_iteration_pulled [where env = env and m = m, OF q us nbi]
  obtain r s1 where s1: "worker_iteration env us m s = (s1, Continue)"
    "results (tester s1) = results (tester s) @ [r]"
    "queue s1 = map Some ids @ None # later"
    "url r = us ! (i mod length us)"
    by blast
  from Cons.IH [OF s1(3)]
  obtain s' where s': "worker env us m s1 = (s', Break)" "queue s' = later"
    "map url (results (tester s')) =
       map url (results (tester s1)) @ map (\<lambda>i. us ! (i mod length us)) ids"
    by blast
  have "worker env us m s = worker env us m s1"
    by (subst worker.simps) (simp add: s1(1))
  then show ?case using s' s1 by simp
qed

theorem worker_drains_queue_witness:
  "\<exists>s'. worker (\<lambda>i. sample_env (Raised ''Connection refused'') 2)
        [''http://a/'', ''http://b/''] ''GET'' (sample_state [Some 0, Some 1, None] 3) = (s', Break) \<and>
     queue s' = [] \<and>
     map url (results (tester s')) = [''http://a/'', ''http://b/'']"
  using worker_drains_queue [where us = "[''http://a/'', ''http://b/'']"
      and env = "\<lambda>i. sample_env (Raised ''Connection refused'') 2"
      and s = "sample_state [Some 0, Some 1, None] 3" and ids = "[0, 1]" and later = "[]"
      and m = "''GET''"]
  by (simp add: sample_state_def sample_env_def sample_tester_def)

subsection \<open>Round-robin URL selection\<close>

lemma count_residue:
  "k < K \<Longrightarrow>
     length (filter (\<lambda>i. i mod K = k) [0..<N]) = N div K + (if k < N mod K then 1 else 0)"
proof (induction N)
  case 0
  then show ?case by simp
next
  case (Suc N)
  then show ?case by (auto simp: mod_Suc div_Suc)
qed

lemma floor_nat_div: "\<lfloor>real N / real K\<rfloor> = int (N div K)"
  by (rule floor_divide_of_nat_eq)

lemma ceiling_nat_div:
  assumes "0 < K"
  shows "\<lceil>real N / real K\<rceil> = int (N div K) + (if N mod K = 0 then 0 else 1)"
proof -
  have "real N = real (N div K) * real K + real (N mod K)"
    by (metis div_mult_mod_eq of_nat_add of_nat_mult)
  then have q: "real N / real K = real (N div K) + real (N mod K) / real K"
    using assms by (simp add: field_simps)
  show ?thesis
  proof (cases "N mod K = 0")
    case True
    then show ?thesis using q by simp
  next
    case False
    have lt: "real (N mod K) / real K < 1" using assms by simp
    have gt: "0 < real (N mod K) / real K" using assms False by simp
    have "\<lceil>real N / real K\<rceil> = int (N div K) + 1"
      by (rule ceiling_eq) (use q lt gt in simp_all)
    then show ?thesis using False by simp
  qed
qed

lemma count_residue_balanced:
  assumes "k < K"
  shows "int (length (filter (\<lambda>i. i mod K = k) [0..<N])) \<in>
     {\<lfloor>real N / real K\<rfloor>, \<lceil>real N / real K\<rceil>}"
proof -
  have K: "0 < K" using assms by simp
  show ?thesis
    unfolding count_residue [OF assms] floor_nat_div ceiling_nat_div [OF K]
    by auto
qed

lemma filter_length_perm:
  "mset xs = mset ys \<Longrightarrow> length (filter P xs) = length (filter P ys)"
  by (metis mset_filter size_mset)

lemma round_robin_counts:
  assumes us: "us \<noteq> []" and fixed: "\<not> truthy (duration cfg)"
    and perm: "mset ids = mset (request_ids cfg)"
  shows "(\<forall>i \<in> set ids. select_url us i = Inr (us ! (i mod length us))) \<and>
         (\<forall>k < length us.
            int (length (filter (\<lambda>i. i mod length us = k) ids)) \<in>
              {\<lfloor>real (num_requests cfg) / real (length us)\<rfloor>,
               \<lceil>real (num_requests cfg) / real (length us)\<rceil>}) \<and>
         (distinct us \<longrightarrow>
            (\<forall>u \<in> set us.
               int (length (filter (\<lambda>i. select_url us i = Inr u) ids)) \<in>
                 {\<lfloor>real (num_requests cfg) / real (length us)\<rfloor>,
                  \<lceil>real (num_requests cfg) / real (length us)\<rceil>}))"
proof -
  have ids: "request_ids cfg = [0..<num_requests cfg]"
    using fixed by (simp add: request_ids_def)
  have sel: "select_url us i = Inr (us ! (i mod length us))" for i
    using us by (simp add: select_url_def)
  have cnt: "int (length (filter (\<lambda>i. i mod length us = k) ids)) \<in>
      {\<lfloor>real (num_requests cfg) / real (length us)\<rfloor>,
       \<lceil>real (num_requests cfg) / real (length us)\<rceil>}" if "k < length us" for k
    using count_residue_balanced [OF that, of "num_requests cfg"]
      filter_length_perm [OF perm, of "\<lambda>i. i mod length us = k"]
    by (simp add: ids)
  have per_url: "int (length (filter (\<lambda>i. select_url us i = Inr u) ids)) \<in>
      {\<lfloor>real (num_requests cfg) / real (length us)\<rfloor>,
       \<lceil>real (num_requests cfg) / real (length us)\<rceil>}"
    if d: "distinct us" and u: "u \<in> set us" for u
  proof -
    from u obtain k where k: "k < length us" "us ! k = u" by (auto simp: in_set_conv_nth)
    have "(select_url us i = Inr u) = (i mod length us = k)" for i
      using d k us by (auto simp: sel nth_eq_iff_index_eq)
    then show ?thesis using cnt [OF k(1)] by simp
  qed
  show ?thesis using sel cnt per_url by blast
qed











end
